theory Spec2Isabelle
  imports Main "HOL-Library.Sublist"
begin

section \<open>The disk interface of the build tool (src/disk_interface.cc)\<close>

text \<open>
  The file has two layers.  \<open>DiskInterface\<close> is an abstract capability with the virtual
  operations \<open>Stat\<close> and \<open>MakeDir\<close> and one algorithm, \<open>MakeDirs\<close>, written once in terms
  of them.  \<open>RealDiskInterface\<close> implements the operations with calls into the host
  operating system.

  Paths are strings (byte lists).  A \<open>TimeStamp\<close> is a signed integer whose typedef is
  not part of the file.  Its values are kept as \<open>int\<close>; where the file turns a value of
  another type into a \<open>TimeStamp\<close> (the \<open>time_t\<close> field \<open>st_mtime\<close> in \<open>Stat\<close>), the
  conversion is a parameter, \<open>to_TimeStamp\<close>.
\<close>

subsection \<open>DirName\<close>

text \<open>
  \<open>std::string::find_last_of\<close>: the greatest index whose character occurs in the second
  string; \<open>None\<close> stands for \<open>string::npos\<close>.
\<close>

fun find_last_of :: "string \<Rightarrow> string \<Rightarrow> nat option" where
  "find_last_of [] seps = None"
| "find_last_of (c # cs) seps =
     (case find_last_of cs seps of
        Some i \<Rightarrow> Some (Suc i)
      | None \<Rightarrow> if c \<in> set seps then Some 0 else None)"

text \<open>
  The loop \<^verbatim>\<open>while (slash_pos > 0 && kPathSeparators.find(path[slash_pos - 1]) != npos)
  --slash_pos;\<close> as a recursion on \<open>slash_pos\<close>.
\<close>

fun skip_separators :: "string \<Rightarrow> string \<Rightarrow> nat \<Rightarrow> nat" where
  "skip_separators seps path 0 = 0"
| "skip_separators seps path (Suc n) =
     (if path ! n \<in> set seps then skip_separators seps path n else Suc n)"

text \<open>
  The macro \<open>DIR_SEP\<close> (the separator characters) is declared outside the file; it is the
  first argument of \<open>DirName\<close>, here called \<open>seps\<close>.
\<close>

definition DirName :: "string \<Rightarrow> string \<Rightarrow> string" where
  "DirName seps path =
     (case find_last_of path seps of
        None \<Rightarrow> []
      | Some slash_pos \<Rightarrow> take (skip_separators seps path slash_pos) path)"

subsection \<open>DiskInterface and the calls made through it\<close>

text \<open>
  The two virtual operations that \<open>MakeDirs\<close> uses, over an arbitrary state \<open>'s\<close> of the
  implementer: each takes the state and returns its result with the new state.
\<close>

record 's DiskInterface =
  Stat :: "string \<Rightarrow> 's \<Rightarrow> int \<times> 's"
  MakeDir :: "string \<Rightarrow> 's \<Rightarrow> bool \<times> 's"

text \<open>
  To speak about which calls an algorithm makes, and in which order, every call through the
  interface is appended to a log kept beside the implementer's state.
\<close>

datatype call = StatCall string | MakeDirCall string

record 's run =
  disk :: 's
  calls :: "call list"

definition call_Stat :: "'s DiskInterface \<Rightarrow> string \<Rightarrow> 's run \<Rightarrow> int \<times> 's run" where
  "call_Stat di p w =
     (fst (Stat di p (disk w)),
      \<lparr>disk = snd (Stat di p (disk w)), calls = calls w @ [StatCall p]\<rparr>)"

definition call_MakeDir :: "'s DiskInterface \<Rightarrow> string \<Rightarrow> 's run \<Rightarrow> bool \<times> 's run" where
  "call_MakeDir di p w =
     (fst (MakeDir di p (disk w)),
      \<lparr>disk = snd (MakeDir di p (disk w)), calls = calls w @ [MakeDirCall p]\<rparr>)"

text \<open>The paths of the \<open>Stat\<close> calls and of the \<open>MakeDir\<close> calls of a log, in order.\<close>

fun Stat_calls :: "call list \<Rightarrow> string list" where
  "Stat_calls [] = []"
| "Stat_calls (StatCall p # cs) = p # Stat_calls cs"
| "Stat_calls (MakeDirCall p # cs) = Stat_calls cs"

fun MakeDir_calls :: "call list \<Rightarrow> string list" where
  "MakeDir_calls [] = []"
| "MakeDir_calls (StatCall p # cs) = MakeDir_calls cs"
| "MakeDir_calls (MakeDirCall p # cs) = p # MakeDir_calls cs"

text \<open>
  An in-memory stand-in for a disk, used for concrete instances: the state is the set of
  directories that exist, \<open>Stat\<close> answers 1 for a member and 0 otherwise, \<open>MakeDir\<close> adds
  the directory and succeeds.
\<close>

definition MemDisk :: "string set DiskInterface" where
  "MemDisk =
     \<lparr>Stat = (\<lambda>p s. (if p \<in> s then 1 else 0, s)),
      MakeDir = (\<lambda>p s. (True, insert p s))\<rparr>"


text \<open>
  The prefix that marks an extended-length path, \<^verbatim>\<open>\\?\\<close>, as the page that \<open>Stat\<close> cites
  ("Naming Files, Paths, and Namespaces") gives it: backslash, backslash, question mark,
  backslash.
\<close>

definition extended_path_marker :: string where
  "extended_path_marker = [CHR 0x5C, CHR 0x5C, CHR 0x3F, CHR 0x5C]"

subsection \<open>The operating system below RealDiskInterface\<close>

text \<open>
  Constants of the system headers, with their usual values.
\<close>

definition ENOENT :: int where "ENOENT = 2"
definition EOF :: int where "EOF = - 1"
definition MAX_PATH :: nat where "MAX_PATH = 260"
definition ERROR_FILE_NOT_FOUND :: nat where "ERROR_FILE_NOT_FOUND = 2"
definition ERROR_PATH_NOT_FOUND :: nat where "ERROR_PATH_NOT_FOUND = 3"

text \<open>
  The calls that the file makes into the C library, the Win32 API and the helpers of
  \<open>util.h\<close>.  None of them is defined in the file, so each is a parameter: a function of
  the state \<open>'o\<close> of the operating system that returns its result and the new state.
  \<^item> \<open>errno\<close> is read from the state; \<open>strerror\<close> turns a code into text.
  \<^item> \<open>sys_stat path\<close> returns the return value of \<open>stat\<close> and the field \<open>st_mtime\<close>, a
    \<open>time_t\<close>; \<open>to_TimeStamp\<close> is the implicit conversion of a \<open>time_t\<close> to the return
    type \<open>TimeStamp\<close> (a narrowing when \<open>TimeStamp\<close> is the smaller type).
  \<^item> \<open>sys_fopen path mode\<close> returns a stream handle, \<open>None\<close> for \<open>NULL\<close>.
  \<^item> \<open>sys_fwrite data size count stream\<close> returns the number of items written.
  \<^item> \<open>sys_fclose\<close> and \<open>sys_remove\<close> return their \<open>int\<close> result.
  \<^item> \<open>util_MakeDir path\<close> is \<open>::MakeDir\<close>, returning its \<open>int\<close> result.
  \<^item> \<open>util_ReadFile path contents err binary\<close> is \<open>::ReadFile\<close>: it receives the
    current values of the two output strings and returns its \<open>int\<close> result with their new
    values.
  \<^item> \<open>GetFileAttributesEx path\<close> returns the \<open>BOOL\<close> result and \<open>ftLastWriteTime\<close>
    (a \<open>FILETIME\<close>, kept abstract as a number); \<open>GetLastError\<close> and
    \<open>GetLastErrorString\<close> read the state; \<open>FiletimeToTimestamp\<close> converts.
\<close>

record 'o OS =
  errno :: "'o \<Rightarrow> int"
  strerror :: "int \<Rightarrow> string"
  sys_stat :: "string \<Rightarrow> 'o \<Rightarrow> (int \<times> int) \<times> 'o"
  to_TimeStamp :: "int \<Rightarrow> int"
  sys_fopen :: "string \<Rightarrow> string \<Rightarrow> 'o \<Rightarrow> nat option \<times> 'o"
  sys_fwrite :: "string \<Rightarrow> nat \<Rightarrow> nat \<Rightarrow> nat \<Rightarrow> 'o \<Rightarrow> nat \<times> 'o"
  sys_fclose :: "nat \<Rightarrow> 'o \<Rightarrow> int \<times> 'o"
  sys_remove :: "string \<Rightarrow> 'o \<Rightarrow> int \<times> 'o"
  util_MakeDir :: "string \<Rightarrow> 'o \<Rightarrow> int \<times> 'o"
  util_ReadFile :: "string \<Rightarrow> string \<Rightarrow> string \<Rightarrow> bool \<Rightarrow> 'o \<Rightarrow> (int \<times> string \<times> string) \<times> 'o"
  GetFileAttributesEx :: "string \<Rightarrow> 'o \<Rightarrow> (int \<times> nat) \<times> 'o"
  GetLastError :: "'o \<Rightarrow> nat"
  GetLastErrorString :: "'o \<Rightarrow> string"
  FiletimeToTimestamp :: "nat \<Rightarrow> int"

text \<open>
  What an operation of \<open>RealDiskInterface\<close> can change: the state of the operating
  system, the log of the calls made into it, the messages given to \<open>Error\<close> and the lines
  printed by \<open>printf\<close>.  A message is kept as its format string with its arguments.
\<close>

datatype syscall =
    Sys_stat string
  | Sys_GetFileAttributesEx string
  | Sys_fopen string string
  | Sys_fwrite string nat nat nat
  | Sys_fclose nat
  | Sys_remove string
  | Sys_MakeDir string
  | Sys_ReadFile string bool

datatype fmt_arg = ArgStr string | ArgInt int

type_synonym message = "string \<times> fmt_arg list"

record 'o world =
  os_state :: 'o
  syscalls :: "syscall list"
  errors :: "message list"
  stdout :: "message list"

definition invoke :: "syscall \<Rightarrow> ('o \<Rightarrow> 'a \<times> 'o) \<Rightarrow> 'o world \<Rightarrow> 'a \<times> 'o world" where
  "invoke c f w =
     (fst (f (os_state w)),
      w\<lparr>os_state := snd (f (os_state w)), syscalls := syscalls w @ [c]\<rparr>)"

text \<open>
  \<open>Error\<close> is declared in \<open>util.h\<close>: the diagnostic sink, which takes a format string
  with its arguments and returns.  Like the calls into the operating system, every call
  to it is recorded, in order; \<open>printf\<close> is treated in the same way, with a record of its
  own.
\<close>

definition Error :: "string \<Rightarrow> fmt_arg list \<Rightarrow> 'o world \<Rightarrow> 'o world" where
  "Error fmt args w = w\<lparr>errors := errors w @ [(fmt, args)]\<rparr>"

definition printf :: "string \<Rightarrow> fmt_arg list \<Rightarrow> 'o world \<Rightarrow> 'o world" where
  "printf fmt args w = w\<lparr>stdout := stdout w @ [(fmt, args)]\<rparr>"

subsection \<open>RealDiskInterface\<close>

text \<open>The two branches of the \<^verbatim>\<open>#ifdef _WIN32\<close> in \<open>Stat\<close>.\<close>

datatype platform = WIN32 | POSIX

definition Stat_win32 :: "'o OS \<Rightarrow> string \<Rightarrow> 'o world \<Rightarrow> int \<times> 'o world" where
  "Stat_win32 os path w =
     (let w0 = printf (''real stat: %s'' @ [CHR 0x0A]) [ArgStr path] w in
      if path \<noteq> [] \<and> path ! 0 \<noteq> CHR 0x5C \<and> length path > MAX_PATH then
        (- 1, Error ''Stat(%s): Filename longer than %i characters''
                [ArgStr path, ArgInt (int MAX_PATH)] w0)
      else
        (case invoke (Sys_GetFileAttributesEx path) (GetFileAttributesEx os path) w0 of
           ((ok, ftLastWriteTime), w1) \<Rightarrow>
             if ok = 0 then
               (let err = GetLastError os (os_state w1) in
                if err = ERROR_FILE_NOT_FOUND \<or> err = ERROR_PATH_NOT_FOUND then (0, w1)
                else
                  (- 1, Error ''GetFileAttributesEx(%s): %s''
                          [ArgStr path, ArgStr (GetLastErrorString os (os_state w1))] w1))
             else (FiletimeToTimestamp os ftLastWriteTime, w1)))"

definition Stat_posix :: "'o OS \<Rightarrow> string \<Rightarrow> 'o world \<Rightarrow> int \<times> 'o world" where
  "Stat_posix os path w =
     (case invoke (Sys_stat path) (sys_stat os path) w of
        ((ret, st_mtime), w1) \<Rightarrow>
          if ret < 0 then
            (if errno os (os_state w1) = ENOENT then (0, w1)
             else
               (- 1, Error ''stat(%s): %s''
                       [ArgStr path, ArgStr (strerror os (errno os (os_state w1)))] w1))
          else (to_TimeStamp os st_mtime, w1))"

definition RealDiskInterface_Stat :: "platform \<Rightarrow> 'o OS \<Rightarrow> string \<Rightarrow> 'o world \<Rightarrow> int \<times> 'o world" where
  "RealDiskInterface_Stat plat os path w =
     (case plat of WIN32 \<Rightarrow> Stat_win32 os path w | POSIX \<Rightarrow> Stat_posix os path w)"

definition RealDiskInterface_WriteFile :: "'o OS \<Rightarrow> string \<Rightarrow> string \<Rightarrow> 'o world \<Rightarrow> bool \<times> 'o world" where
  "RealDiskInterface_WriteFile os path contents w =
     (case invoke (Sys_fopen path ''w'') (sys_fopen os path ''w'') w of
        (None, w1) \<Rightarrow>
          (False, Error ''WriteFile(%s): Unable to create file. %s''
                    [ArgStr path, ArgStr (strerror os (errno os (os_state w1)))] w1)
      | (Some fp, w1) \<Rightarrow>
          (case invoke (Sys_fwrite contents 1 (length contents) fp)
                  (sys_fwrite os contents 1 (length contents) fp) w1 of
             (written, w2) \<Rightarrow>
               if written < length contents then
                 (False, Error ''WriteFile(%s): Unable to write to the file. %s''
                           [ArgStr path, ArgStr (strerror os (errno os (os_state w2)))] w2)
               else
                 (case invoke (Sys_fclose fp) (sys_fclose os fp) w2 of
                    (closed, w3) \<Rightarrow>
                      if closed = EOF then
                        (False, Error ''WriteFile(%s): Unable to close the file. %s''
                                  [ArgStr path, ArgStr (strerror os (errno os (os_state w3)))] w3)
                      else (True, w3))))"


text \<open>
  \<open>ReadFile\<close> has the output parameter \<open>err\<close>: the model takes its value at the call and
  returns the content together with the value of \<open>err\<close> at the return.  The local string
  \<open>contents\<close> is empty when it is handed to \<open>::ReadFile\<close>.
\<close>

definition RealDiskInterface_ReadFile ::
  "'o OS \<Rightarrow> string \<Rightarrow> string \<Rightarrow> bool \<Rightarrow> 'o world \<Rightarrow> (string \<times> string) \<times> 'o world" where
  "RealDiskInterface_ReadFile os path err binary w =
     (case invoke (Sys_ReadFile path binary) (util_ReadFile os path [] err binary) w of
        ((ret, contents, err1), w1) \<Rightarrow>
          if ret = - ENOENT then ((contents, []), w1) else ((contents, err1), w1))"

definition RealDiskInterface_RemoveFile :: "'o OS \<Rightarrow> string \<Rightarrow> 'o world \<Rightarrow> int \<times> 'o world" where
  "RealDiskInterface_RemoveFile os path w =
     (case invoke (Sys_remove path) (sys_remove os path) w of
        (ret, w1) \<Rightarrow>
          if ret < 0 then
            (if errno os (os_state w1) = ENOENT then (1, w1)
             else
               (- 1, Error ''remove(%s): %s''
                       [ArgStr path, ArgStr (strerror os (errno os (os_state w1)))] w1))
          else (0, w1))"


text \<open>
  Modelled from the spec: what \<open>::ReadFile\<close> of \<open>util.h\<close> does with the contents buffer
  is not in the file.  The spec describes it as "a full-file-read primitive that returns
  either the content or a negated error code": a reply with a nonzero code carries the
  contents buffer as the primitive received it.
\<close>

definition content_or_code :: "string \<Rightarrow> int \<times> string \<times> string \<Rightarrow> bool" where
  "content_or_code contents_in reply \<longleftrightarrow>
     (fst reply = 0 \<or> fst (snd reply) = contents_in)"

text \<open>
  The conversion of an integer to a signed 32-bit \<open>int\<close>, with the wrap-around written
  out: what \<open>to_TimeStamp\<close> is when \<open>TimeStamp\<close> is a \<open>typedef int\<close>.
\<close>

definition narrow_int32 :: "int \<Rightarrow> int" where
  "narrow_int32 x = (x + 2147483648) mod 4294967296 - 2147483648"

text \<open>
  A stand-in for the operating system, used for concrete instances.  Its state is the
  value of \<open>errno\<close> (also the answer of \<open>GetLastError\<close>); every call succeeds and leaves
  the state alone; a \<open>TimeStamp\<close> has 32 bits.  Instances change single calls by record
  update.
\<close>

definition quiet_os :: "int OS" where
  "quiet_os =
     \<lparr>errno = (\<lambda>s. s),
      strerror = (\<lambda>e. ''E''),
      sys_stat = (\<lambda>p s. ((0, 1000), s)),
      to_TimeStamp = narrow_int32,
      sys_fopen = (\<lambda>p m s. (Some 3, s)),
      sys_fwrite = (\<lambda>d sz n f s. (n, s)),
      sys_fclose = (\<lambda>f s. (0, s)),
      sys_remove = (\<lambda>p s. (0, s)),
      util_MakeDir = (\<lambda>p s. (0, s)),
      util_ReadFile = (\<lambda>p c e b s. ((0, ''data'', e), s)),
      GetFileAttributesEx = (\<lambda>p s. ((1, 5), s)),
      GetLastError = (\<lambda>s. nat s),
      GetLastErrorString = (\<lambda>s. ''E''),
      FiletimeToTimestamp = (\<lambda>t. int t)\<rparr>"

definition world0 :: "int world" where
  "world0 = \<lparr>os_state = 0, syscalls = [], errors = [], stdout = []\<rparr>"



subsection \<open>Facts about DirName needed for the recursion of MakeDirs\<close>

lemma find_last_of_None: "find_last_of path seps = None \<longleftrightarrow> set path \<inter> set seps = {}"
  by (induction path) (auto split: option.splits)

lemma find_last_of_Some:
  "find_last_of path seps = Some i \<Longrightarrow> i < length path \<and> path ! i \<in> set seps"
  by (induction path arbitrary: i) (auto split: option.splits if_splits)

lemma skip_separators_le: "skip_separators seps path n \<le> n"
  by (induction n) auto

lemma DirName_length:
  "find_last_of path seps = Some i \<Longrightarrow> length (DirName seps path) < length path"
proof -
  assume h: "find_last_of path seps = Some i"
  then have "i < length path" by (simp add: find_last_of_Some)
  moreover have "skip_separators seps path i \<le> i" by (rule skip_separators_le)
  ultimately show ?thesis using h by (simp add: DirName_def)
qed

lemma DirName_shorter: "DirName seps path \<noteq> [] \<Longrightarrow> length (DirName seps path) < length path"
proof (cases "find_last_of path seps")
  case None
  assume "DirName seps path \<noteq> []"
  with None show ?thesis by (simp add: DirName_def)
next
  case (Some i)
  then show ?thesis by (rule DirName_length)
qed

lemma DirName_no_separator: "set path \<inter> set seps = {} \<Longrightarrow> DirName seps path = []"
  by (simp add: DirName_def find_last_of_None [symmetric])

lemma DirName_prefix: "prefix (DirName seps path) path"
  by (simp add: DirName_def take_is_prefix split: option.splits)

subsection \<open>MakeDirs\<close>

function MakeDirs :: "string \<Rightarrow> 's DiskInterface \<Rightarrow> string \<Rightarrow> 's run \<Rightarrow> bool \<times> 's run" where
  "MakeDirs seps di path w =
     (let dir = DirName seps path in
      if dir = [] then (True, w)
      else
        (case call_Stat di dir w of (mtime, w1) \<Rightarrow>
           if mtime < 0 then (False, w1)
           else if mtime > 0 then (True, w1)
           else
             (case MakeDirs seps di dir w1 of (success, w2) \<Rightarrow>
                if \<not> success then (False, w2)
                else call_MakeDir di dir w2)))"
  by pat_completeness auto
termination
  by (relation "measure (\<lambda>(seps, di, path, w). length path)") (auto simp: DirName_shorter)

declare MakeDirs.simps [simp del]



section \<open>Properties\<close>

subsection \<open>Unfolding MakeDirs, and its log\<close>

lemma Stat_calls_append: "Stat_calls (xs @ ys) = Stat_calls xs @ Stat_calls ys"
  by (induction xs rule: Stat_calls.induct) auto

lemma MakeDir_calls_append: "MakeDir_calls (xs @ ys) = MakeDir_calls xs @ MakeDir_calls ys"
  by (induction xs rule: MakeDir_calls.induct) auto

lemma calls_call_Stat: "calls (snd (call_Stat di p w)) = calls w @ [StatCall p]"
  by (simp add: call_Stat_def)

lemma calls_call_MakeDir: "calls (snd (call_MakeDir di p w)) = calls w @ [MakeDirCall p]"
  by (simp add: call_MakeDir_def)

lemma MakeDirs_root: "DirName seps path = [] \<Longrightarrow> MakeDirs seps di path w = (True, w)"
  by (subst MakeDirs.simps) simp

lemma MakeDirs_unfold:
  "DirName seps path = dir \<Longrightarrow> dir \<noteq> [] \<Longrightarrow>
   MakeDirs seps di path w =
     (if fst (call_Stat di dir w) < 0 then (False, snd (call_Stat di dir w))
      else if fst (call_Stat di dir w) > 0 then (True, snd (call_Stat di dir w))
      else if \<not> fst (MakeDirs seps di dir (snd (call_Stat di dir w)))
        then (False, snd (MakeDirs seps di dir (snd (call_Stat di dir w))))
      else call_MakeDir di dir (snd (MakeDirs seps di dir (snd (call_Stat di dir w)))))"
  by (subst MakeDirs.simps) (simp add: Let_def split: prod.splits)

lemma MakeDirs_Stat_calls:
  "\<exists>tr. calls (snd (MakeDirs seps di path w)) = calls w @ tr \<and>
        length (Stat_calls tr) \<le> length path"
proof (induction "length path" arbitrary: path w rule: less_induct)
  case less
  show ?case
  proof (cases "DirName seps path = []")
    case True
    then show ?thesis by (simp add: MakeDirs_root)
  next
    case False
    define dir where "dir = DirName seps path"
    define w1 where "w1 = snd (call_Stat di dir w)"
    have dir: "DirName seps path = dir" "dir \<noteq> []"
      using False by (simp_all add: dir_def)
    have len: "length dir < length path"
      using False by (simp add: dir_def DirName_shorter)
    have c1: "calls w1 = calls w @ [StatCall dir]"
      by (simp add: w1_def calls_call_Stat)
    from less [OF len] obtain tr where
      tr: "calls (snd (MakeDirs seps di dir w1)) = calls w1 @ tr"
          "length (Stat_calls tr) \<le> length dir"
      by blast
    show ?thesis
      using len c1 tr
      by (simp add: MakeDirs_unfold [OF dir] w1_def [symmetric] calls_call_MakeDir
            Stat_calls_append)
  qed
qed

lemma MakeDirs_negative:
  "DirName seps path = dir \<Longrightarrow> dir \<noteq> [] \<Longrightarrow> fst (Stat di dir (disk w)) < 0 \<Longrightarrow>
   MakeDirs seps di path w = (False, snd (call_Stat di dir w))"
  by (simp add: MakeDirs_unfold call_Stat_def)

lemma MakeDirs_positive:
  "DirName seps path = dir \<Longrightarrow> dir \<noteq> [] \<Longrightarrow> 0 < fst (Stat di dir (disk w)) \<Longrightarrow>
   MakeDirs seps di path w = (True, snd (call_Stat di dir w))"
  by (simp add: MakeDirs_unfold call_Stat_def)

lemma MakeDirs_zero:
  "DirName seps path = dir \<Longrightarrow> dir \<noteq> [] \<Longrightarrow> fst (Stat di dir (disk w)) = 0 \<Longrightarrow>
   MakeDirs seps di path w =
     (if fst (MakeDirs seps di dir (snd (call_Stat di dir w)))
      then call_MakeDir di dir (snd (MakeDirs seps di dir (snd (call_Stat di dir w))))
      else (False, snd (MakeDirs seps di dir (snd (call_Stat di dir w)))))"
  by (simp add: MakeDirs_unfold call_Stat_def)











lemma MakeDirs_second_call:
  assumes first: "MakeDirs seps di path w = (True, w1)"
    and ro: "\<forall>p s. snd (Stat di p s) = s"
    and made: "\<forall>p s. fst (MakeDir di p s) \<longrightarrow> 0 < fst (Stat di p (snd (MakeDir di p s)))"
  shows "MakeDirs seps di path w1 =
     (True, w1\<lparr>calls := calls w1 @
        (if DirName seps path = [] then [] else [StatCall (DirName seps path)])\<rparr>)"
proof (cases "DirName seps path = []")
  case True
  then show ?thesis using first by (simp add: MakeDirs_root)
next
  case False
  define dir where "dir = DirName seps path"
  have dir: "DirName seps path = dir" "dir \<noteq> []"
    using False by (simp_all add: dir_def)
  have again: "MakeDirs seps di path w1 = (True, snd (call_Stat di dir w1))"
    if "0 < fst (Stat di dir (disk w1))"
    using dir that by (rule MakeDirs_positive)
  have logged: "snd (call_Stat di dir w1) = w1\<lparr>calls := calls w1 @ [StatCall dir]\<rparr>"
    using ro by (simp add: call_Stat_def)
  have "0 < fst (Stat di dir (disk w1))"
  proof -
    consider (neg) "fst (Stat di dir (disk w)) < 0" | (pos) "0 < fst (Stat di dir (disk w))"
      | (zero) "fst (Stat di dir (disk w)) = 0" by linarith
    then show ?thesis
    proof cases
      case neg
      then show ?thesis using first MakeDirs_negative [OF dir neg] by simp
    next
      case pos
      have "w1 = snd (call_Stat di dir w)"
        using first MakeDirs_positive [OF dir pos] by simp
      then have "disk w1 = disk w" using ro by (simp add: call_Stat_def)
      then show ?thesis using pos by simp
    next
      case zero
      define ok where "ok = fst (MakeDirs seps di dir (snd (call_Stat di dir w)))"
      define w2 where "w2 = snd (MakeDirs seps di dir (snd (call_Stat di dir w)))"
      have eq: "MakeDirs seps di path w =
          (if ok then call_MakeDir di dir w2 else (False, w2))"
        unfolding ok_def w2_def by (rule MakeDirs_zero [OF dir zero])
      have "call_MakeDir di dir w2 = (True, w1)"
        using first eq by (cases ok) simp_all
      then have "fst (MakeDir di dir (disk w2))" "disk w1 = snd (MakeDir di dir (disk w2))"
        by (auto simp: call_MakeDir_def)
      then show ?thesis using made by simp
    qed
  qed
  then show ?thesis using again logged dir by simp
qed

subsection \<open>The scenario of the spec, evaluated\<close>

lemma DirName_file: "DirName ''/'' ''a/b/c/file.txt'' = ''a/b/c''"
  by (simp add: DirName_def)


lemma MakeDirs_file:
  "MakeDirs ''/'' MemDisk ''a/b/c/file.txt'' \<lparr>disk = {}, calls = []\<rparr> =
     (True, \<lparr>disk = {''a/b/c'', ''a/b'', ''a''},
        calls = [StatCall ''a/b/c'', StatCall ''a/b'', StatCall ''a'',
                 MakeDirCall ''a'', MakeDirCall ''a/b'', MakeDirCall ''a/b/c'']\<rparr>)"
  by code_simp

subsection \<open>The steps of MakeDirs\<close>




subsection \<open>A path without a separator\<close>

text \<open>
  Claim C5.  For every path that contains no path separator, \<open>MakeDirs\<close> returns success
  without calling \<open>Stat\<close> or \<open>MakeDir\<close>: the result is \<open>True\<close>, and the state of the disk
  and the log of calls are those it was given.
\<close>

theorem MakeDirs_no_separator:
  "set path \<inter> set seps = {} \<Longrightarrow> MakeDirs seps di path w = (True, w)"
  by (simp add: MakeDirs_root DirName_no_separator)

theorem MakeDirs_no_separator_witness:
  "set ''file.txt'' \<inter> set ''/'' = {} \<and>
   MakeDirs ''/'' MemDisk ''file.txt'' \<lparr>disk = {}, calls = []\<rparr>
     = (True, \<lparr>disk = {}, calls = []\<rparr>)"
  using MakeDirs_no_separator [of "''file.txt''" "''/''" MemDisk "\<lparr>disk = {}, calls = []\<rparr>"]
  by simp

subsection \<open>An existing parent, and a second call\<close>

text \<open>
  Claim C4.  When \<open>Stat\<close> of the derived parent is positive, \<open>MakeDirs\<close> returns success
  and adds no \<open>MakeDir\<close> call to the log.  In particular a second identical call right
  after a successful one succeeds with no creation call: on a disk whose \<open>Stat\<close> does not
  change the disk and on which a directory that \<open>MakeDir\<close> has just created is reported
  by \<open>Stat\<close> as existing, the second call returns \<open>True\<close>, leaves the disk as it is and
  logs nothing but the one \<open>Stat\<close> of the parent.
\<close>

theorem MakeDirs_idempotent:
  "(0 < fst (Stat di (DirName seps path) (disk w)) \<longrightarrow>
      fst (MakeDirs seps di path w) \<and>
      MakeDir_calls (calls (snd (MakeDirs seps di path w))) = MakeDir_calls (calls w)) \<and>
   (MakeDirs seps di path w = (True, w1) \<and>
    (\<forall>p s. snd (Stat di p s) = s) \<and>
    (\<forall>p s. fst (MakeDir di p s) \<longrightarrow> 0 < fst (Stat di p (snd (MakeDir di p s)))) \<longrightarrow>
      MakeDirs seps di path w1 =
        (True, w1\<lparr>calls := calls w1 @
           (if DirName seps path = [] then [] else [StatCall (DirName seps path)])\<rparr>))"
proof (intro conjI impI)
  assume pos: "0 < fst (Stat di (DirName seps path) (disk w))"
  have "MakeDirs seps di path w =
      (True, if DirName seps path = [] then w else snd (call_Stat di (DirName seps path) w))"
    using pos by (simp add: MakeDirs_root MakeDirs_positive)
  then show "fst (MakeDirs seps di path w)"
    and "MakeDir_calls (calls (snd (MakeDirs seps di path w))) = MakeDir_calls (calls w)"
    by (simp_all add: calls_call_Stat MakeDir_calls_append)
next
  assume h: "MakeDirs seps di path w = (True, w1) \<and>
    (\<forall>p s. snd (Stat di p s) = s) \<and>
    (\<forall>p s. fst (MakeDir di p s) \<longrightarrow> 0 < fst (Stat di p (snd (MakeDir di p s))))"
  from h have first: "MakeDirs seps di path w = (True, w1)" by simp
  from h have ro: "\<forall>p s. snd (Stat di p s) = s" by simp
  from h have made: "\<forall>p s. fst (MakeDir di p s) \<longrightarrow>
      0 < fst (Stat di p (snd (MakeDir di p s)))" by simp
  from first ro made show "MakeDirs seps di path w1 =
        (True, w1\<lparr>calls := calls w1 @
           (if DirName seps path = [] then [] else [StatCall (DirName seps path)])\<rparr>)"
    by (rule MakeDirs_second_call)
qed

theorem MakeDirs_idempotent_witness:
  "0 < fst (Stat MemDisk (DirName ''/'' ''a/b/c/file.txt'') (disk \<lparr>disk = {''a/b/c''}, calls = []\<rparr>)) \<and>
   fst (MakeDirs ''/'' MemDisk ''a/b/c/file.txt'' \<lparr>disk = {''a/b/c''}, calls = []\<rparr>) \<and>
   MakeDir_calls (calls (snd (MakeDirs ''/'' MemDisk ''a/b/c/file.txt'' \<lparr>disk = {''a/b/c''}, calls = []\<rparr>))) = [] \<and>
   MakeDirs ''/'' MemDisk ''a/b/c/file.txt'' \<lparr>disk = {}, calls = []\<rparr> =
     (True, \<lparr>disk = {''a/b/c'', ''a/b'', ''a''},
        calls = [StatCall ''a/b/c'', StatCall ''a/b'', StatCall ''a'',
                 MakeDirCall ''a'', MakeDirCall ''a/b'', MakeDirCall ''a/b/c'']\<rparr>) \<and>
   MakeDirs ''/'' MemDisk ''a/b/c/file.txt''
       \<lparr>disk = {''a/b/c'', ''a/b'', ''a''},
        calls = [StatCall ''a/b/c'', StatCall ''a/b'', StatCall ''a'',
                 MakeDirCall ''a'', MakeDirCall ''a/b'', MakeDirCall ''a/b/c'']\<rparr> =
     (True, \<lparr>disk = {''a/b/c'', ''a/b'', ''a''},
        calls = [StatCall ''a/b/c'', StatCall ''a/b'', StatCall ''a'',
                 MakeDirCall ''a'', MakeDirCall ''a/b'', MakeDirCall ''a/b/c'',
                 StatCall ''a/b/c'']\<rparr>)"
proof -
  have pos: "0 < fst (Stat MemDisk (DirName ''/'' ''a/b/c/file.txt'')
      (disk \<lparr>disk = {''a/b/c''}, calls = []\<rparr>))"
    by (simp add: DirName_file MemDisk_def)
  have ro: "\<forall>p s. snd (Stat MemDisk p s) = s"
    by (simp add: MemDisk_def)
  have made: "\<forall>p s. fst (MakeDir MemDisk p s) \<longrightarrow>
      0 < fst (Stat MemDisk p (snd (MakeDir MemDisk p s)))"
    by (simp add: MemDisk_def)
  show ?thesis
    using pos ro made MakeDirs_file
      MakeDirs_idempotent [of MemDisk "''/''" "''a/b/c/file.txt''"
        "\<lparr>disk = {''a/b/c''}, calls = []\<rparr>"]
      MakeDirs_idempotent [of MemDisk "''/''" "''a/b/c/file.txt''"
        "\<lparr>disk = {}, calls = []\<rparr>"
        "\<lparr>disk = {''a/b/c'', ''a/b'', ''a''},
        calls = [StatCall ''a/b/c'', StatCall ''a/b'', StatCall ''a'',
                 MakeDirCall ''a'', MakeDirCall ''a/b'', MakeDirCall ''a/b/c'']\<rparr>"]
    by (simp add: DirName_file)
qed

subsection \<open>Termination of MakeDirs\<close>

text \<open>
  Claim C10.  \<open>MakeDirs\<close> terminates on every path.  Whenever the derived parent
  \<open>DirName path\<close> is not empty, it is a proper prefix of \<open>path\<close> and strictly shorter; this
  is the measure of the termination proof of \<open>MakeDirs\<close> above, which makes it a total
  function.  The depth of the recursion is bounded by the length of the path: an
  invocation calls \<open>Stat\<close> once before it recurses, and the \<open>Stat\<close> calls that a run of
  \<open>MakeDirs\<close> adds to the log are at most \<open>length path\<close>.
\<close>

theorem MakeDirs_recursion_bounded:
  "(DirName seps path \<noteq> [] \<longrightarrow>
      strict_prefix (DirName seps path) path \<and> length (DirName seps path) < length path) \<and>
   (\<exists>tr. calls (snd (MakeDirs seps di path w)) = calls w @ tr \<and>
         length (Stat_calls tr) \<le> length path)"
proof -
  have "strict_prefix (DirName seps path) path" if "DirName seps path \<noteq> []"
  proof -
    have "length (DirName seps path) < length path"
      using that by (rule DirName_shorter)
    then have "DirName seps path \<noteq> path" by auto
    then show ?thesis by (simp add: strict_prefix_def DirName_prefix)
  qed
  then show ?thesis
    using DirName_shorter [of seps path] MakeDirs_Stat_calls [of seps di path w] by blast
qed

theorem MakeDirs_recursion_bounded_witness:
  "DirName ''/'' ''a/b/c/file.txt'' \<noteq> [] \<and>
   strict_prefix (DirName ''/'' ''a/b/c/file.txt'') ''a/b/c/file.txt'' \<and>
   length (DirName ''/'' ''a/b/c/file.txt'') < length ''a/b/c/file.txt'' \<and>
   length (Stat_calls (calls (snd
     (MakeDirs ''/'' MemDisk ''a/b/c/file.txt'' \<lparr>disk = {}, calls = []\<rparr>))))
     \<le> length ''a/b/c/file.txt''"
proof -
  have ne: "DirName ''/'' ''a/b/c/file.txt'' \<noteq> []"
    by (simp add: DirName_def)
  show ?thesis
    using ne MakeDirs_recursion_bounded
      [of "''/''" "''a/b/c/file.txt''" MemDisk "\<lparr>disk = {}, calls = []\<rparr>"]
    by auto
qed

section \<open>Properties of RealDiskInterface\<close>

lemma invoke_eq:
  "f (os_state w) = (a, s') \<Longrightarrow>
   invoke c f w = (a, w\<lparr>os_state := s', syscalls := syscalls w @ [c]\<rparr>)"
  by (simp add: invoke_def)

subsection \<open>RemoveFile\<close>

text \<open>
  Claim C7.  \<open>RemoveFile\<close> returns one of 0, 1 and \<open>-1\<close> for every path: 0 when the
  \<open>remove\<close> call succeeds, 1 when it fails with \<open>errno = ENOENT\<close> (the path does not
  exist), in both cases with nothing given to \<open>Error\<close>, and \<open>-1\<close> for any other failure,
  with exactly one message given to \<open>Error\<close>.
\<close>

theorem RemoveFile_outcomes:
  assumes "sys_remove os path (os_state w) = (ret, s')"
  shows
   "fst (RealDiskInterface_RemoveFile os path w) \<in> {0, 1, - 1} \<and>
    (0 \<le> ret \<longrightarrow>
       RealDiskInterface_RemoveFile os path w =
         (0, w\<lparr>os_state := s', syscalls := syscalls w @ [Sys_remove path]\<rparr>)) \<and>
    (ret < 0 \<and> errno os s' = ENOENT \<longrightarrow>
       RealDiskInterface_RemoveFile os path w =
         (1, w\<lparr>os_state := s', syscalls := syscalls w @ [Sys_remove path]\<rparr>)) \<and>
    (ret < 0 \<and> errno os s' \<noteq> ENOENT \<longrightarrow>
       fst (RealDiskInterface_RemoveFile os path w) = - 1 \<and>
       errors (snd (RealDiskInterface_RemoveFile os path w)) =
         errors w @ [(''remove(%s): %s'', [ArgStr path, ArgStr (strerror os (errno os s'))])])"
  using assms by (simp add: RealDiskInterface_RemoveFile_def invoke_eq Error_def)

theorem RemoveFile_outcomes_witness:
  "RealDiskInterface_RemoveFile quiet_os ''out.o'' world0 =
     (0, world0\<lparr>os_state := 0, syscalls := [Sys_remove ''out.o'']\<rparr>) \<and>
   RealDiskInterface_RemoveFile (quiet_os\<lparr>sys_remove := \<lambda>p s. (- 1, 2)\<rparr>) ''out.o'' world0 =
     (1, world0\<lparr>os_state := 2, syscalls := [Sys_remove ''out.o'']\<rparr>) \<and>
   fst (RealDiskInterface_RemoveFile (quiet_os\<lparr>sys_remove := \<lambda>p s. (- 1, 13)\<rparr>)
       ''out.o'' world0) = - 1 \<and>
   errors (snd (RealDiskInterface_RemoveFile (quiet_os\<lparr>sys_remove := \<lambda>p s. (- 1, 13)\<rparr>)
       ''out.o'' world0)) =
     [(''remove(%s): %s'', [ArgStr ''out.o'', ArgStr ''E''])]"
proof -
  have a: "sys_remove quiet_os ''out.o'' (os_state world0) = (0, 0)"
    by (simp add: quiet_os_def world0_def)
  have b: "sys_remove (quiet_os\<lparr>sys_remove := \<lambda>p s. (- 1, 2)\<rparr>) ''out.o''
      (os_state world0) = (- 1, 2)"
    by simp
  have c: "sys_remove (quiet_os\<lparr>sys_remove := \<lambda>p s. (- 1, 13)\<rparr>) ''out.o''
      (os_state world0) = (- 1, 13)"
    by simp
  show ?thesis
    using RemoveFile_outcomes [OF a] RemoveFile_outcomes [OF b] RemoveFile_outcomes [OF c]
    by (simp add: quiet_os_def world0_def ENOENT_def)
qed

subsection \<open>Stat\<close>

text \<open>
  Claim C2, amended.  For every path on which the metadata call is made and succeeds and
  reports a modification time that is greater than zero and fits the type \<open>TimeStamp\<close>
  (the conversion to \<open>TimeStamp\<close> leaves it as it is), \<open>Stat\<close> returns that time, a value
  strictly greater than zero, and gives nothing to \<open>Error\<close>: with \<open>stat\<close> the time is
  \<open>st_mtime\<close>; under \<^verbatim>\<open>_WIN32\<close>, for a path that passes the length check, it is
  \<open>FiletimeToTimestamp\<close> of \<open>ftLastWriteTime\<close>.
\<close>

theorem Stat_reports_mtime:
  "(sys_stat os path (os_state w) = ((ret, st_mtime), s') \<and> 0 \<le> ret \<and> 0 < st_mtime \<and>
    to_TimeStamp os st_mtime = st_mtime \<longrightarrow>
      RealDiskInterface_Stat POSIX os path w =
        (st_mtime, w\<lparr>os_state := s', syscalls := syscalls w @ [Sys_stat path]\<rparr>) \<and>
      0 < fst (RealDiskInterface_Stat POSIX os path w)) \<and>
   (\<not> (path \<noteq> [] \<and> path ! 0 \<noteq> CHR 0x5C \<and> MAX_PATH < length path) \<and>
    GetFileAttributesEx os path (os_state w) = ((ok, ftLastWriteTime), s') \<and> ok \<noteq> 0 \<and>
    0 < FiletimeToTimestamp os ftLastWriteTime \<longrightarrow>
      fst (RealDiskInterface_Stat WIN32 os path w) = FiletimeToTimestamp os ftLastWriteTime \<and>
      0 < fst (RealDiskInterface_Stat WIN32 os path w) \<and>
      errors (snd (RealDiskInterface_Stat WIN32 os path w)) = errors w)"
  by (auto simp: RealDiskInterface_Stat_def Stat_posix_def Stat_win32_def invoke_eq
        printf_def invoke_def)

theorem Stat_reports_mtime_witness:
  "RealDiskInterface_Stat POSIX quiet_os ''build.ninja'' world0 =
     (1000, world0\<lparr>os_state := 0, syscalls := [Sys_stat ''build.ninja'']\<rparr>) \<and>
   0 < fst (RealDiskInterface_Stat POSIX quiet_os ''build.ninja'' world0) \<and>
   fst (RealDiskInterface_Stat WIN32 quiet_os ''build.ninja'' world0) = 5 \<and>
   errors (snd (RealDiskInterface_Stat WIN32 quiet_os ''build.ninja'' world0)) = []"
proof -
  have a: "sys_stat quiet_os ''build.ninja'' (os_state world0) = ((0, 1000), 0) \<and>
      (0::int) \<le> 0 \<and> (0::int) < 1000 \<and> to_TimeStamp quiet_os 1000 = 1000"
    by (simp add: quiet_os_def world0_def narrow_int32_def)
  have b: "\<not> (''build.ninja'' \<noteq> [] \<and> ''build.ninja'' ! 0 \<noteq> CHR 0x5C \<and>
        MAX_PATH < length ''build.ninja'') \<and>
      GetFileAttributesEx quiet_os ''build.ninja'' (os_state world0) = ((1, 5), 0) \<and>
      (1::int) \<noteq> 0 \<and> 0 < FiletimeToTimestamp quiet_os 5"
    by (simp add: quiet_os_def world0_def MAX_PATH_def)
  show ?thesis
    using a b
      Stat_reports_mtime [of quiet_os "''build.ninja''" world0 0 1000 0 1 5]
    by (simp add: quiet_os_def world0_def)
qed

text \<open>
  The claim C2 as stated promises, whenever the metadata call succeeds, a result that is
  greater than zero and is the modification time.  For a file whose \<open>st_mtime\<close> is 0
  (modified at the epoch) the call succeeds and \<open>Stat\<close> returns 0, the value that stands
  for a missing path.
\<close>

theorem Stat_mtime_zero_counterexample:
  "sys_stat (quiet_os\<lparr>sys_stat := \<lambda>p s. ((0, 0), s)\<rparr>) ''epoch'' (os_state world0) =
     ((0, 0), os_state world0) \<and>
   fst (RealDiskInterface_Stat POSIX (quiet_os\<lparr>sys_stat := \<lambda>p s. ((0, 0), s)\<rparr>)
     ''epoch'' world0) = 0 \<and>
   \<not> 0 < fst (RealDiskInterface_Stat POSIX (quiet_os\<lparr>sys_stat := \<lambda>p s. ((0, 0), s)\<rparr>)
     ''epoch'' world0)"
  by (simp add: RealDiskInterface_Stat_def Stat_posix_def invoke_def quiet_os_def
        narrow_int32_def)

text \<open>
  The conversion matters as well: with a \<open>TimeStamp\<close> of 32 bits, a modification time of
  \<open>2^31 + 5\<close> seconds comes back from \<open>Stat\<close> as a negative number.
\<close>

lemma Stat_mtime_narrowed:
  "fst (RealDiskInterface_Stat POSIX (quiet_os\<lparr>sys_stat := \<lambda>p s. ((0, 2147483653), s)\<rparr>)
     ''late'' world0) = - 2147483643"
  by (simp add: RealDiskInterface_Stat_def Stat_posix_def invoke_def quiet_os_def
        narrow_int32_def)

text \<open>
  Claim C3, amended.  For every path for which the metadata call is made and reports that
  the path does not exist (\<open>stat\<close> fails with \<open>errno = ENOENT\<close>; under \<^verbatim>\<open>_WIN32\<close>, for a
  path that passes the length check, \<open>GetFileAttributesEx\<close> fails with
  \<open>ERROR_FILE_NOT_FOUND\<close> or \<open>ERROR_PATH_NOT_FOUND\<close>), \<open>Stat\<close> returns exactly 0 and gives
  nothing to \<open>Error\<close>.  (The line that the \<^verbatim>\<open>_WIN32\<close> branch prints with \<open>printf\<close> goes to
  the standard output, not to \<open>Error\<close>.)
\<close>

theorem Stat_missing:
  "(sys_stat os path (os_state w) = ((ret, st_mtime), s') \<and> ret < 0 \<and> errno os s' = ENOENT \<longrightarrow>
      RealDiskInterface_Stat POSIX os path w =
        (0, w\<lparr>os_state := s', syscalls := syscalls w @ [Sys_stat path]\<rparr>)) \<and>
   (\<not> (path \<noteq> [] \<and> path ! 0 \<noteq> CHR 0x5C \<and> MAX_PATH < length path) \<and>
    GetFileAttributesEx os path (os_state w) = ((0, ftLastWriteTime), s') \<and>
    (GetLastError os s' = ERROR_FILE_NOT_FOUND \<or> GetLastError os s' = ERROR_PATH_NOT_FOUND) \<longrightarrow>
      fst (RealDiskInterface_Stat WIN32 os path w) = 0 \<and>
      errors (snd (RealDiskInterface_Stat WIN32 os path w)) = errors w)"
  by (auto simp: RealDiskInterface_Stat_def Stat_posix_def Stat_win32_def invoke_eq
        printf_def invoke_def)

theorem Stat_missing_witness:
  "RealDiskInterface_Stat POSIX (quiet_os\<lparr>sys_stat := \<lambda>p s. ((- 1, 0), 2)\<rparr>) ''gone'' world0 =
     (0, world0\<lparr>os_state := 2, syscalls := [Sys_stat ''gone'']\<rparr>) \<and>
   fst (RealDiskInterface_Stat WIN32 (quiet_os\<lparr>GetFileAttributesEx := \<lambda>p s. ((0, 0), 3)\<rparr>)
     ''gone'' world0) = 0 \<and>
   errors (snd (RealDiskInterface_Stat WIN32
     (quiet_os\<lparr>GetFileAttributesEx := \<lambda>p s. ((0, 0), 3)\<rparr>) ''gone'' world0)) = []"
proof -
  have a: "sys_stat (quiet_os\<lparr>sys_stat := \<lambda>p s. ((- 1, 0), 2)\<rparr>) ''gone'' (os_state world0)
        = ((- 1, 0), 2) \<and>
      (- 1 :: int) < 0 \<and> errno (quiet_os\<lparr>sys_stat := \<lambda>p s. ((- 1, 0), 2)\<rparr>) 2 = ENOENT"
    by (simp add: quiet_os_def ENOENT_def)
  have b: "\<not> (''gone'' \<noteq> [] \<and> ''gone'' ! 0 \<noteq> CHR 0x5C \<and> MAX_PATH < length ''gone'') \<and>
      GetFileAttributesEx (quiet_os\<lparr>GetFileAttributesEx := \<lambda>p s. ((0, 0), 3)\<rparr>) ''gone''
        (os_state world0) = ((0, 0), 3) \<and>
      (GetLastError (quiet_os\<lparr>GetFileAttributesEx := \<lambda>p s. ((0, 0), 3)\<rparr>) 3 = ERROR_FILE_NOT_FOUND \<or>
       GetLastError (quiet_os\<lparr>GetFileAttributesEx := \<lambda>p s. ((0, 0), 3)\<rparr>) 3 = ERROR_PATH_NOT_FOUND)"
    by (simp add: quiet_os_def MAX_PATH_def ERROR_PATH_NOT_FOUND_def)
  show ?thesis
    using a b
      Stat_missing [of "quiet_os\<lparr>sys_stat := \<lambda>p s. ((- 1, 0), 2)\<rparr>" "''gone''" world0
        "- 1" 0 2]
      Stat_missing [of "quiet_os\<lparr>GetFileAttributesEx := \<lambda>p s. ((0, 0), 3)\<rparr>" "''gone''" world0
        _ _ 3 0]
    by (simp add: world0_def)
qed

text \<open>
  The claim C3 as stated speaks of every path that does not exist.  Under \<^verbatim>\<open>_WIN32\<close> a
  path of 261 characters that does not exist (the operating system would answer
  \<open>ERROR_FILE_NOT_FOUND\<close>) is rejected by the length check before the operating system is
  asked: \<open>Stat\<close> returns \<open>-1\<close> and gives a message to \<open>Error\<close>.
\<close>

theorem Stat_missing_too_long_counterexample:
  "fst (fst (GetFileAttributesEx (quiet_os\<lparr>GetFileAttributesEx := \<lambda>p s. ((0, 0), 2)\<rparr>)
      (replicate 261 CHR ''a'') (os_state world0))) = 0 \<and>
   GetLastError (quiet_os\<lparr>GetFileAttributesEx := \<lambda>p s. ((0, 0), 2)\<rparr>)
     (snd (GetFileAttributesEx (quiet_os\<lparr>GetFileAttributesEx := \<lambda>p s. ((0, 0), 2)\<rparr>)
        (replicate 261 CHR ''a'') (os_state world0))) = ERROR_FILE_NOT_FOUND \<and>
   fst (RealDiskInterface_Stat WIN32 (quiet_os\<lparr>GetFileAttributesEx := \<lambda>p s. ((0, 0), 2)\<rparr>)
     (replicate 261 CHR ''a'') world0) = - 1 \<and>
   errors (snd (RealDiskInterface_Stat WIN32 (quiet_os\<lparr>GetFileAttributesEx := \<lambda>p s. ((0, 0), 2)\<rparr>)
     (replicate 261 CHR ''a'') world0)) =
     [(''Stat(%s): Filename longer than %i characters'',
       [ArgStr (replicate 261 CHR ''a''), ArgInt 260])]"
  by (simp add: RealDiskInterface_Stat_def Stat_win32_def Error_def printf_def quiet_os_def
        world0_def MAX_PATH_def ERROR_FILE_NOT_FOUND_def)

text \<open>
  Claim C8, amended.  Under \<^verbatim>\<open>_WIN32\<close>, for every non-empty path longer than \<open>MAX_PATH\<close>
  whose first character is not a backslash, \<open>Stat\<close> returns the negative value \<open>-1\<close> and
  gives one message to \<open>Error\<close>, without a call into the operating system: the log of
  calls and the state of the operating system are unchanged.  A non-empty path whose
  first character is a backslash is never rejected for its length: \<open>Stat\<close> makes the
  metadata call on it.
\<close>

theorem Stat_path_too_long:
  "(path \<noteq> [] \<and> path ! 0 \<noteq> CHR 0x5C \<and> MAX_PATH < length path \<longrightarrow>
      fst (RealDiskInterface_Stat WIN32 os path w) = - 1 \<and>
      errors (snd (RealDiskInterface_Stat WIN32 os path w)) =
        errors w @ [(''Stat(%s): Filename longer than %i characters'',
                     [ArgStr path, ArgInt (int MAX_PATH)])] \<and>
      syscalls (snd (RealDiskInterface_Stat WIN32 os path w)) = syscalls w \<and>
      os_state (snd (RealDiskInterface_Stat WIN32 os path w)) = os_state w) \<and>
   (path \<noteq> [] \<and> path ! 0 = CHR 0x5C \<longrightarrow>
      syscalls (snd (RealDiskInterface_Stat WIN32 os path w)) =
        syscalls w @ [Sys_GetFileAttributesEx path])"
  by (auto simp: RealDiskInterface_Stat_def Stat_win32_def Error_def printf_def invoke_def
        Let_def split: prod.splits)

theorem Stat_path_too_long_witness:
  "replicate 261 CHR ''a'' \<noteq> [] \<and> replicate 261 CHR ''a'' ! 0 \<noteq> CHR 0x5C \<and>
   MAX_PATH < length (replicate 261 CHR ''a'') \<and>
   fst (RealDiskInterface_Stat WIN32 quiet_os (replicate 261 CHR ''a'') world0) = - 1 \<and>
   errors (snd (RealDiskInterface_Stat WIN32 quiet_os (replicate 261 CHR ''a'') world0)) =
      [(''Stat(%s): Filename longer than %i characters'',
        [ArgStr (replicate 261 CHR ''a''), ArgInt 260])] \<and>
   syscalls (snd (RealDiskInterface_Stat WIN32 quiet_os (replicate 261 CHR ''a'') world0)) = [] \<and>
   syscalls (snd (RealDiskInterface_Stat WIN32 quiet_os
      (CHR 0x5C # replicate 260 CHR ''a'') world0)) =
     [Sys_GetFileAttributesEx (CHR 0x5C # replicate 260 CHR ''a'')]"
proof -
  have a: "replicate 261 CHR ''a'' \<noteq> [] \<and> replicate 261 CHR ''a'' ! 0 \<noteq> CHR 0x5C \<and>
      MAX_PATH < length (replicate 261 CHR ''a'')"
    by (simp add: MAX_PATH_def)
  have b: "CHR 0x5C # replicate 260 CHR ''a'' \<noteq> [] \<and>
      (CHR 0x5C # replicate 260 CHR ''a'') ! 0 = CHR 0x5C"
    by simp
  show ?thesis
    using a b
      Stat_path_too_long [of "replicate 261 CHR ''a''" quiet_os world0, THEN conjunct1]
      Stat_path_too_long [of "CHR 0x5C # replicate 260 CHR ''a''" quiet_os world0,
        THEN conjunct2]
    by (simp add: world0_def MAX_PATH_def)
qed

text \<open>
  The claim C8 as stated speaks of every over-long path that does not begin with the
  extended-path escape marker.  A path of 261 characters that begins with a single
  backslash does not begin with the marker, yet the guard \<^verbatim>\<open>path[0] != '\\'\<close> lets it
  pass: \<open>Stat\<close> calls \<open>GetFileAttributesEx\<close>, gives nothing to \<open>Error\<close> and returns what
  the call reports.
\<close>

theorem Stat_single_backslash_counterexample:
  "CHR 0x5C # replicate 260 CHR ''a'' \<noteq> [] \<and>
   MAX_PATH < length (CHR 0x5C # replicate 260 CHR ''a'') \<and>
   \<not> prefix extended_path_marker (CHR 0x5C # replicate 260 CHR ''a'') \<and>
   fst (RealDiskInterface_Stat WIN32 quiet_os (CHR 0x5C # replicate 260 CHR ''a'') world0) = 5 \<and>
   errors (snd (RealDiskInterface_Stat WIN32 quiet_os
      (CHR 0x5C # replicate 260 CHR ''a'') world0)) = [] \<and>
   syscalls (snd (RealDiskInterface_Stat WIN32 quiet_os
      (CHR 0x5C # replicate 260 CHR ''a'') world0)) =
     [Sys_GetFileAttributesEx (CHR 0x5C # replicate 260 CHR ''a'')]"
proof -
  have "replicate 260 CHR ''a'' = CHR ''a'' # replicate 259 CHR ''a''"
    by (simp add: replicate_Suc [symmetric] del: replicate_Suc)
  then have "\<not> prefix extended_path_marker (CHR 0x5C # replicate 260 CHR ''a'')"
    by (simp add: extended_path_marker_def)
  then show ?thesis
    by (simp add: RealDiskInterface_Stat_def Stat_win32_def printf_def invoke_def quiet_os_def
          world0_def MAX_PATH_def)
qed

subsection \<open>ReadFile\<close>

text \<open>
  Claim C6.  When the read primitive \<open>::ReadFile\<close> reports that the path does not exist
  (it returns \<open>-ENOENT\<close>), \<open>ReadFile\<close> clears the caller's \<open>err\<close>, whatever the primitive
  wrote there, gives nothing to \<open>Error\<close>, and returns the contents buffer as the primitive
  left it; under the contract \<open>content_or_code\<close> of the primitive that is the empty
  content.
\<close>

theorem ReadFile_missing:
  assumes "util_ReadFile os path [] err binary (os_state w) = (reply, s')"
    and "fst reply = - ENOENT"
  shows
   "snd (fst (RealDiskInterface_ReadFile os path err binary w)) = [] \<and>
    fst (fst (RealDiskInterface_ReadFile os path err binary w)) = fst (snd reply) \<and>
    (content_or_code [] reply \<longrightarrow>
       fst (fst (RealDiskInterface_ReadFile os path err binary w)) = []) \<and>
    errors (snd (RealDiskInterface_ReadFile os path err binary w)) = errors w"
  using assms
  by (cases reply)
     (auto simp: RealDiskInterface_ReadFile_def invoke_eq content_or_code_def ENOENT_def)

theorem ReadFile_missing_witness:
  "fst (fst (util_ReadFile
      (quiet_os\<lparr>util_ReadFile := \<lambda>p c e b s. ((- 2, c, ''No such file or directory''), 2)\<rparr>)
      ''deps.d'' [] ''stale'' False (os_state world0))) = - ENOENT \<and>
   content_or_code []
     (fst (util_ReadFile
      (quiet_os\<lparr>util_ReadFile := \<lambda>p c e b s. ((- 2, c, ''No such file or directory''), 2)\<rparr>)
      ''deps.d'' [] ''stale'' False (os_state world0))) \<and>
   fst (RealDiskInterface_ReadFile
      (quiet_os\<lparr>util_ReadFile := \<lambda>p c e b s. ((- 2, c, ''No such file or directory''), 2)\<rparr>)
      ''deps.d'' ''stale'' False world0) = ([], []) \<and>
   errors (snd (RealDiskInterface_ReadFile
      (quiet_os\<lparr>util_ReadFile := \<lambda>p c e b s. ((- 2, c, ''No such file or directory''), 2)\<rparr>)
      ''deps.d'' ''stale'' False world0)) = []"
proof -
  let ?os = "quiet_os\<lparr>util_ReadFile := \<lambda>p c e b s. ((- 2, c, ''No such file or directory''), 2)\<rparr>"
  have a: "util_ReadFile ?os ''deps.d'' [] ''stale'' False (os_state world0) =
      ((- 2, [], ''No such file or directory''), 2)"
    by simp
  have b: "fst (- 2 :: int, [] :: string, ''No such file or directory'') = - ENOENT"
    by (simp add: ENOENT_def)
  have c: "content_or_code [] (- 2, [], ''No such file or directory'')"
    by (simp add: content_or_code_def)
  show ?thesis
    using b c ReadFile_missing [OF a b]
    by (simp add: world0_def prod_eq_iff)
qed

subsection \<open>WriteFile\<close>

text \<open>
  Claim C9.  \<open>WriteFile\<close> fails at the first failing step among \<open>fopen\<close>, \<open>fwrite\<close> of the
  whole content and \<open>fclose\<close>: it returns \<open>False\<close>, makes no later call and gives \<open>Error\<close>
  the one message of that step.  It returns \<open>True\<close> exactly when \<open>fopen\<close> returns a stream,
  \<open>fwrite\<close> reports no fewer items than the length of the content (a short write is a
  failure) and \<open>fclose\<close> does not return \<open>EOF\<close>; then nothing is given to \<open>Error\<close>.
\<close>

theorem WriteFile_first_failure:
  "(sys_fopen os path ''w'' (os_state w) = (None, s1) \<longrightarrow>
      \<not> fst (RealDiskInterface_WriteFile os path contents w) \<and>
      syscalls (snd (RealDiskInterface_WriteFile os path contents w)) =
        syscalls w @ [Sys_fopen path ''w''] \<and>
      errors (snd (RealDiskInterface_WriteFile os path contents w)) =
        errors w @ [(''WriteFile(%s): Unable to create file. %s'',
                     [ArgStr path, ArgStr (strerror os (errno os s1))])]) \<and>
   (sys_fopen os path ''w'' (os_state w) = (Some fp, s1) \<and>
    sys_fwrite os contents 1 (length contents) fp s1 = (written, s2) \<and>
    written < length contents \<longrightarrow>
      \<not> fst (RealDiskInterface_WriteFile os path contents w) \<and>
      syscalls (snd (RealDiskInterface_WriteFile os path contents w)) =
        syscalls w @ [Sys_fopen path ''w'', Sys_fwrite contents 1 (length contents) fp] \<and>
      errors (snd (RealDiskInterface_WriteFile os path contents w)) =
        errors w @ [(''WriteFile(%s): Unable to write to the file. %s'',
                     [ArgStr path, ArgStr (strerror os (errno os s2))])]) \<and>
   (sys_fopen os path ''w'' (os_state w) = (Some fp, s1) \<and>
    sys_fwrite os contents 1 (length contents) fp s1 = (written, s2) \<and>
    length contents \<le> written \<and>
    sys_fclose os fp s2 = (EOF, s3) \<longrightarrow>
      \<not> fst (RealDiskInterface_WriteFile os path contents w) \<and>
      syscalls (snd (RealDiskInterface_WriteFile os path contents w)) =
        syscalls w @ [Sys_fopen path ''w'', Sys_fwrite contents 1 (length contents) fp,
                      Sys_fclose fp] \<and>
      errors (snd (RealDiskInterface_WriteFile os path contents w)) =
        errors w @ [(''WriteFile(%s): Unable to close the file. %s'',
                     [ArgStr path, ArgStr (strerror os (errno os s3))])]) \<and>
   (fst (RealDiskInterface_WriteFile os path contents w) \<longleftrightarrow>
      (\<exists>fp s1 written s2 closed s3.
          sys_fopen os path ''w'' (os_state w) = (Some fp, s1) \<and>
          sys_fwrite os contents 1 (length contents) fp s1 = (written, s2) \<and>
          length contents \<le> written \<and>
          sys_fclose os fp s2 = (closed, s3) \<and> closed \<noteq> EOF)) \<and>
   (fst (RealDiskInterface_WriteFile os path contents w) \<longrightarrow>
      errors (snd (RealDiskInterface_WriteFile os path contents w)) = errors w)"
proof -
  obtain fpo s1' where o: "sys_fopen os path ''w'' (os_state w) = (fpo, s1')"
    by (cases "sys_fopen os path ''w'' (os_state w)")
  show ?thesis
  proof (cases fpo)
    case None
    with o show ?thesis
      by (simp add: RealDiskInterface_WriteFile_def invoke_eq Error_def)
  next
    case (Some f)
    obtain n s2' where wr: "sys_fwrite os contents 1 (length contents) f s1' = (n, s2')"
      by (cases "sys_fwrite os contents 1 (length contents) f s1'")
    obtain c s3' where cl: "sys_fclose os f s2' = (c, s3')"
      by (cases "sys_fclose os f s2'")
    from o Some wr cl show ?thesis
      by (auto simp: RealDiskInterface_WriteFile_def invoke_eq Error_def)
  qed
qed


theorem WriteFile_first_failure_witness:
  "\<not> fst (RealDiskInterface_WriteFile (quiet_os\<lparr>sys_fopen := \<lambda>p m s. (None, 13)\<rparr>)
        ''out'' ''abc'' world0) \<and>
   syscalls (snd (RealDiskInterface_WriteFile (quiet_os\<lparr>sys_fopen := \<lambda>p m s. (None, 13)\<rparr>)
        ''out'' ''abc'' world0)) = [Sys_fopen ''out'' ''w''] \<and>
   errors (snd (RealDiskInterface_WriteFile (quiet_os\<lparr>sys_fopen := \<lambda>p m s. (None, 13)\<rparr>)
        ''out'' ''abc'' world0)) =
     [(''WriteFile(%s): Unable to create file. %s'', [ArgStr ''out'', ArgStr ''E''])] \<and>
   \<not> fst (RealDiskInterface_WriteFile (quiet_os\<lparr>sys_fwrite := \<lambda>d sz n f s. (n - 1, 28)\<rparr>)
        ''out'' ''abc'' world0) \<and>
   syscalls (snd (RealDiskInterface_WriteFile (quiet_os\<lparr>sys_fwrite := \<lambda>d sz n f s. (n - 1, 28)\<rparr>)
        ''out'' ''abc'' world0)) = [Sys_fopen ''out'' ''w'', Sys_fwrite ''abc'' 1 3 3] \<and>
   errors (snd (RealDiskInterface_WriteFile (quiet_os\<lparr>sys_fwrite := \<lambda>d sz n f s. (n - 1, 28)\<rparr>)
        ''out'' ''abc'' world0)) =
     [(''WriteFile(%s): Unable to write to the file. %s'', [ArgStr ''out'', ArgStr ''E''])] \<and>
   \<not> fst (RealDiskInterface_WriteFile (quiet_os\<lparr>sys_fclose := \<lambda>f s. (- 1, 5)\<rparr>)
        ''out'' ''abc'' world0) \<and>
   syscalls (snd (RealDiskInterface_WriteFile (quiet_os\<lparr>sys_fclose := \<lambda>f s. (- 1, 5)\<rparr>)
        ''out'' ''abc'' world0)) =
     [Sys_fopen ''out'' ''w'', Sys_fwrite ''abc'' 1 3 3, Sys_fclose 3] \<and>
   errors (snd (RealDiskInterface_WriteFile (quiet_os\<lparr>sys_fclose := \<lambda>f s. (- 1, 5)\<rparr>)
        ''out'' ''abc'' world0)) =
     [(''WriteFile(%s): Unable to close the file. %s'', [ArgStr ''out'', ArgStr ''E''])] \<and>
   fst (RealDiskInterface_WriteFile quiet_os ''out'' ''abc'' world0) \<and>
   errors (snd (RealDiskInterface_WriteFile quiet_os ''out'' ''abc'' world0)) = []"
proof -
  have opens: "sys_fopen (quiet_os\<lparr>sys_fopen := \<lambda>p m s. (None, 13)\<rparr>) ''out'' ''w''
      (os_state world0) = (None, 13)"
    by simp
  have short: "sys_fopen (quiet_os\<lparr>sys_fwrite := \<lambda>d sz n f s. (n - 1, 28)\<rparr>) ''out'' ''w''
      (os_state world0) = (Some 3, 0) \<and>
    sys_fwrite (quiet_os\<lparr>sys_fwrite := \<lambda>d sz n f s. (n - 1, 28)\<rparr>) ''abc'' 1 (length ''abc'') 3 0
      = (2, 28) \<and> 2 < length ''abc''"
    by (simp add: quiet_os_def world0_def)
  have closes: "sys_fopen (quiet_os\<lparr>sys_fclose := \<lambda>f s. (- 1, 5)\<rparr>) ''out'' ''w''
      (os_state world0) = (Some 3, 0) \<and>
    sys_fwrite (quiet_os\<lparr>sys_fclose := \<lambda>f s. (- 1, 5)\<rparr>) ''abc'' 1 (length ''abc'') 3 0
      = (3, 0) \<and> length ''abc'' \<le> 3 \<and>
    sys_fclose (quiet_os\<lparr>sys_fclose := \<lambda>f s. (- 1, 5)\<rparr>) 3 0 = (EOF, 5)"
    by (simp add: quiet_os_def world0_def EOF_def)
  have fine: "sys_fopen quiet_os ''out'' ''w'' (os_state world0) = (Some 3, 0) \<and>
    sys_fwrite quiet_os ''abc'' 1 (length ''abc'') 3 0 = (3, 0) \<and> length ''abc'' \<le> 3 \<and>
    sys_fclose quiet_os 3 0 = (0, 0) \<and> (0::int) \<noteq> EOF"
    by (simp add: quiet_os_def world0_def EOF_def)
  have 1: "\<not> fst (RealDiskInterface_WriteFile (quiet_os\<lparr>sys_fopen := \<lambda>p m s. (None, 13)\<rparr>)
        ''out'' ''abc'' world0) \<and>
   syscalls (snd (RealDiskInterface_WriteFile (quiet_os\<lparr>sys_fopen := \<lambda>p m s. (None, 13)\<rparr>)
        ''out'' ''abc'' world0)) = [Sys_fopen ''out'' ''w''] \<and>
   errors (snd (RealDiskInterface_WriteFile (quiet_os\<lparr>sys_fopen := \<lambda>p m s. (None, 13)\<rparr>)
        ''out'' ''abc'' world0)) =
     [(''WriteFile(%s): Unable to create file. %s'', [ArgStr ''out'', ArgStr ''E''])]"
    using opens
      WriteFile_first_failure [where os = "quiet_os\<lparr>sys_fopen := \<lambda>p m s. (None, 13)\<rparr>"
        and path = "''out''" and contents = "''abc''" and w = world0 and ?s1.0 = 13,
        THEN conjunct1]
    by (simp add: quiet_os_def world0_def)
  have 2: "\<not> fst (RealDiskInterface_WriteFile (quiet_os\<lparr>sys_fwrite := \<lambda>d sz n f s. (n - 1, 28)\<rparr>)
        ''out'' ''abc'' world0) \<and>
   syscalls (snd (RealDiskInterface_WriteFile (quiet_os\<lparr>sys_fwrite := \<lambda>d sz n f s. (n - 1, 28)\<rparr>)
        ''out'' ''abc'' world0)) = [Sys_fopen ''out'' ''w'', Sys_fwrite ''abc'' 1 3 3] \<and>
   errors (snd (RealDiskInterface_WriteFile (quiet_os\<lparr>sys_fwrite := \<lambda>d sz n f s. (n - 1, 28)\<rparr>)
        ''out'' ''abc'' world0)) =
     [(''WriteFile(%s): Unable to write to the file. %s'', [ArgStr ''out'', ArgStr ''E''])]"
    using short
      WriteFile_first_failure [where os = "quiet_os\<lparr>sys_fwrite := \<lambda>d sz n f s. (n - 1, 28)\<rparr>"
        and path = "''out''" and contents = "''abc''" and w = world0 and ?s1.0 = 0
        and fp = 3 and written = 2 and ?s2.0 = 28,
        THEN conjunct2, THEN conjunct1]
    by (simp add: quiet_os_def world0_def)
  have 3: "\<not> fst (RealDiskInterface_WriteFile (quiet_os\<lparr>sys_fclose := \<lambda>f s. (- 1, 5)\<rparr>)
        ''out'' ''abc'' world0) \<and>
   syscalls (snd (RealDiskInterface_WriteFile (quiet_os\<lparr>sys_fclose := \<lambda>f s. (- 1, 5)\<rparr>)
        ''out'' ''abc'' world0)) =
     [Sys_fopen ''out'' ''w'', Sys_fwrite ''abc'' 1 3 3, Sys_fclose 3] \<and>
   errors (snd (RealDiskInterface_WriteFile (quiet_os\<lparr>sys_fclose := \<lambda>f s. (- 1, 5)\<rparr>)
        ''out'' ''abc'' world0)) =
     [(''WriteFile(%s): Unable to close the file. %s'', [ArgStr ''out'', ArgStr ''E''])]"
    using closes
      WriteFile_first_failure [where os = "quiet_os\<lparr>sys_fclose := \<lambda>f s. (- 1, 5)\<rparr>"
        and path = "''out''" and contents = "''abc''" and w = world0 and ?s1.0 = 0
        and fp = 3 and written = 3 and ?s2.0 = 0 and ?s3.0 = 5,
        THEN conjunct2, THEN conjunct2, THEN conjunct1]
    by (simp add: quiet_os_def world0_def)
  have 4: "fst (RealDiskInterface_WriteFile quiet_os ''out'' ''abc'' world0) \<and>
   errors (snd (RealDiskInterface_WriteFile quiet_os ''out'' ''abc'' world0)) = []"
    using fine
      WriteFile_first_failure [where os = quiet_os
        and path = "''out''" and contents = "''abc''" and w = world0,
        THEN conjunct2, THEN conjunct2, THEN conjunct2]
    by (simp add: world0_def)
  show ?thesis using 1 2 3 4 by simp
qed

end
